theory Spec2Isabelle
  imports Main "HOL-Library.Sublist"
begin

section \<open>Values and plain objects\<close>

text \<open>
  The option objects handed to the registration functions are plain JavaScript objects used
  as dictionaries. A field value is a primitive or a reference \<open>JRef a\<close> to the object at
  address \<open>a\<close> of the heap of plain objects (a column type, a function);
  \<open>Object.assign\<close> copies field values as they are. An \<open>obj\<close> is the finite map of the own
  fields of an object; what an object inherits is read through its prototype, below.
\<close>

datatype jsval = JUndefined | JNull | JBool bool | JNum int | JStr string | JRef nat

type_synonym obj = "string \<rightharpoonup> jsval"

text \<open>Truthiness, as the test \<open>!v\<close> reads a value.\<close>

fun truthy :: "jsval \<Rightarrow> bool" where
  "truthy JUndefined = False"
| "truthy JNull = False"
| "truthy (JBool b) = b"
| "truthy (JNum n) = (n \<noteq> 0)"
| "truthy (JStr s) = (s \<noteq> [])"
| "truthy (JRef r) = True"

text \<open>
  \<open>Object.assign(target, ...sources)\<close>: the sources are merged into the target from left to
  right, a later source overriding a field of the same name.
\<close>

definition Object_assign :: "obj \<Rightarrow> obj list \<Rightarrow> obj" where
  "Object_assign tgt sources = foldl (++) tgt sources"

datatype error = Error string

section \<open>The reflection metadata store\<close>

text \<open>
  A target is the identity of a class or of a class prototype. The store of the
  reflect-metadata library attaches values to a target under a metadata key. The module uses
  four distinct string keys (\<open>sequelize:modelName\<close>, \<open>sequelize:attributes\<close>,
  \<open>sequelize:options\<close>, \<open>sequelize:foreignKey\<close>) and reads the compiler-emitted key
  \<open>design:type\<close> per property; each key is a slot of its own below.

  Attribute maps, option objects and foreign-key arrays are mutable JavaScript objects: the
  store keeps a reference (an address) and the objects live in heaps, so that an object
  reached from two targets is one object. An attribute map holds references to the objects
  stored under its property names; these objects (the attribute records, and whatever else
  the module stores back into a map) live in the heap \<open>plain_objs\<close>. \<open>Object_prototype\<close> is the
  address of \<open>Object.prototype\<close> in that heap: its fields are the members every plain object
  inherits.
\<close>

type_synonym target = nat
type_synonym addr = nat

datatype getter = Getter nat

record ISequelizeForeignKeyConfig =
  relatedClassGetter :: getter
  foreignKey :: string

datatype design = String | Number | Boolean | Date | Object | Array | Function | Class nat

record store =
  ancestors :: "target \<Rightarrow> target list"
  constructor_name :: "target \<Rightarrow> string"
  design_type_md :: "target \<Rightarrow> string \<rightharpoonup> design"
  modelName_md :: "target \<rightharpoonup> string"
  attributes_md :: "target \<rightharpoonup> addr"
  options_md :: "target \<rightharpoonup> addr"
  foreignKey_md :: "target \<rightharpoonup> addr"
  attr_objs :: "addr \<Rightarrow> (string \<rightharpoonup> addr)"
  plain_objs :: "addr \<Rightarrow> obj"
  Object_prototype :: addr
  opt_objs :: "addr \<Rightarrow> obj"
  fk_arrays :: "addr \<Rightarrow> ISequelizeForeignKeyConfig list"
  next_addr :: addr

text \<open>
  Modelled from the spec: the store itself is the external reflect-metadata library, which
  the spec describes as key/value attachment to class objects with inheritance-aware lookup.
  \<open>ancestors st t\<close> is the prototype chain of \<open>t\<close> without \<open>t\<close> itself, nearest first, and
  \<open>constructor_name st t\<close> is \<open>t.constructor.name\<close>. \<open>Reflect.getMetadata\<close> looks a key up on
  the target and then along its prototype chain; \<open>Reflect.defineMetadata\<close> writes the
  target's own entry.
\<close>

fun OrdinaryGetMetadata :: "(target \<rightharpoonup> 'a) \<Rightarrow> target list \<Rightarrow> 'a option" where
  "OrdinaryGetMetadata md [] = None"
| "OrdinaryGetMetadata md (t # ts) =
     (case md t of Some v \<Rightarrow> Some v | None \<Rightarrow> OrdinaryGetMetadata md ts)"

definition Reflect_getMetadata :: "(target \<rightharpoonup> 'a) \<Rightarrow> store \<Rightarrow> target \<Rightarrow> 'a option" where
  "Reflect_getMetadata md st target = OrdinaryGetMetadata md (target # ancestors st target)"

definition Reflect_defineMetadata :: "(target \<rightharpoonup> 'a) \<Rightarrow> 'a \<Rightarrow> target \<Rightarrow> (target \<rightharpoonup> 'a)" where
  "Reflect_defineMetadata md v target = md(target \<mapsto> v)"

text \<open>
  The members of \<open>Object.prototype\<close> in a fresh JavaScript realm, each a function object of
  its own (addresses 1 to 11). The accessor \<open>__proto__\<close> is not a field: it is read and
  written as the prototype of the object at hand, see \<open>attributes_get\<close>.
\<close>

definition Object_prototype_members :: obj where
  "Object_prototype_members =
     [''constructor'' \<mapsto> JRef 1, ''__defineGetter__'' \<mapsto> JRef 2,
      ''__defineSetter__'' \<mapsto> JRef 3, ''hasOwnProperty'' \<mapsto> JRef 4,
      ''__lookupGetter__'' \<mapsto> JRef 5, ''__lookupSetter__'' \<mapsto> JRef 6,
      ''isPrototypeOf'' \<mapsto> JRef 7, ''propertyIsEnumerable'' \<mapsto> JRef 8,
      ''toString'' \<mapsto> JRef 9, ''valueOf'' \<mapsto> JRef 10, ''toLocaleString'' \<mapsto> JRef 11]"

text \<open>
  A store in which no metadata has been defined yet, over a given class table:
  \<open>Object.prototype\<close> is at address 0 with its standard members, and nothing else is
  allocated.
\<close>

definition empty_store :: "(target \<Rightarrow> target list) \<Rightarrow> (target \<Rightarrow> string) \<Rightarrow> store" where
  "empty_store anc names =
     \<lparr>ancestors = anc, constructor_name = names, design_type_md = (\<lambda>t. Map.empty),
      modelName_md = Map.empty, attributes_md = Map.empty, options_md = Map.empty,
      foreignKey_md = Map.empty, attr_objs = (\<lambda>a. Map.empty),
      plain_objs = (\<lambda>a. Map.empty)(0 := Object_prototype_members), Object_prototype = 0,
      opt_objs = (\<lambda>a. Map.empty), fk_arrays = (\<lambda>a. []), next_addr = 12\<rparr>"

section \<open>Model name\<close>

definition setModelName :: "target \<Rightarrow> string \<Rightarrow> store \<Rightarrow> store" where
  "setModelName target modelName st =
     st\<lparr>modelName_md := Reflect_defineMetadata (modelName_md st) modelName target\<rparr>"

definition getModelName :: "target \<Rightarrow> store \<Rightarrow> string option" where
  "getModelName target st = Reflect_getMetadata (modelName_md st) st target"

section \<open>Attributes\<close>

definition getAttributes :: "target \<Rightarrow> store \<Rightarrow> addr option" where
  "getAttributes target st = Reflect_getMetadata (attributes_md st) st target"

definition setAttributes :: "target \<Rightarrow> addr \<Rightarrow> store \<Rightarrow> store" where
  "setAttributes target attributes st =
     st\<lparr>attributes_md := Reflect_defineMetadata (attributes_md st) attributes target\<rparr>"

text \<open>
  The object literal \<open>{}\<close> used as a new attribute map, a new plain object with given
  fields, and the write \<open>attributes[name] = r\<close> of an object reference. A new map has no
  entry of its own and \<open>Object.prototype\<close> as its prototype.
\<close>

definition new_attributes :: "store \<Rightarrow> addr \<times> store" where
  "new_attributes st =
     (next_addr st,
      st\<lparr>attr_objs := (attr_objs st)(next_addr st := Map.empty), next_addr := Suc (next_addr st)\<rparr>)"

definition new_object :: "obj \<Rightarrow> store \<Rightarrow> addr \<times> store" where
  "new_object fs st =
     (next_addr st,
      st\<lparr>plain_objs := (plain_objs st)(next_addr st := fs), next_addr := Suc (next_addr st)\<rparr>)"

definition attributes_put :: "addr \<Rightarrow> string \<Rightarrow> addr \<Rightarrow> store \<Rightarrow> store" where
  "attributes_put attributes name r st =
     st\<lparr>attr_objs := (attr_objs st)(attributes := (attr_objs st attributes)(name \<mapsto> r))\<rparr>"

text \<open>
  The read \<open>attributes[name]\<close>. An entry of the map itself is found first. Otherwise the
  read goes on along the prototype chain: the fields of the map's prototype, then (the
  prototype being a plain object) those of \<open>Object.prototype\<close>; a name found nowhere reads as
  \<open>undefined\<close>. The name \<open>__proto__\<close> is the accessor of \<open>Object.prototype\<close>: writing an
  object under it installs that object as the map's prototype and reading it returns the
  prototype, so the map's slot for \<open>__proto__\<close> is its prototype when one was installed.
\<close>

definition prototype_of :: "addr \<Rightarrow> store \<Rightarrow> addr" where
  "prototype_of attributes st =
     (case attr_objs st attributes ''__proto__'' of
        Some r \<Rightarrow> r
      | None \<Rightarrow> Object_prototype st)"

definition attributes_get :: "addr \<Rightarrow> string \<Rightarrow> store \<Rightarrow> jsval" where
  "attributes_get attributes name st =
     (if name = ''__proto__'' then JRef (prototype_of attributes st)
      else
        (case attr_objs st attributes name of
           Some r \<Rightarrow> JRef r
         | None \<Rightarrow>
             (case plain_objs st (prototype_of attributes st) name of
                Some v \<Rightarrow> v
              | None \<Rightarrow>
                  (case plain_objs st (Object_prototype st) name of
                     Some v \<Rightarrow> v
                   | None \<Rightarrow> JUndefined))))"

definition addAttribute :: "target \<Rightarrow> string \<Rightarrow> obj \<Rightarrow> store \<Rightarrow> store" where
  "addAttribute target name options st =
     (let (attributes, st1) =
        (case getAttributes target st of
           None \<Rightarrow> (let (a, s) = new_attributes st in (a, setAttributes target a s))
         | Some a \<Rightarrow> (a, st));
          (r, st2) = new_object (Object_assign Map.empty [options]) st1
      in attributes_put attributes name r st2)"

definition missing_column_message :: "string \<Rightarrow> string \<Rightarrow> string" where
  "missing_column_message propertyName className =
     ''@Column annotation is missing for '' @ [CHR 0x22] @ propertyName @ [CHR 0x22] @
     '' of class '' @ [CHR 0x22] @ className @ [CHR 0x22] @
     '' or annotation order is wrong.''"

text \<open>
  \<open>Object.assign(v, options)\<close> for a truthy value \<open>v\<close> read from the heap: an object is merged
  into in place and returned; a primitive is wrapped in a new object that receives the
  fields. (The index fields of a wrapped string are left out, and so are assignments the
  engine refuses, such as to the read-only \<open>name\<close> of a built-in function: the column
  options the spec names, such as type, comment and default value, have no such field.)
\<close>

definition Object_assign_into :: "jsval \<Rightarrow> obj \<Rightarrow> store \<Rightarrow> addr \<times> store" where
  "Object_assign_into v options st =
     (case v of
        JRef r \<Rightarrow>
          (r, st\<lparr>plain_objs := (plain_objs st)(r := Object_assign (plain_objs st r) [options])\<rparr>)
      | _ \<Rightarrow> new_object (Object_assign Map.empty [options]) st)"

text \<open>
  A throwing operation returns the error together with the store as it is when the error
  is thrown. The guard \<open>!attributes[propertyName]\<close> tests the value the read returns, found
  in the map itself or inherited; when it passes, line 81 merges the options into that
  value and stores the result under the property name.
\<close>

definition addAttributeOptions ::
  "target \<Rightarrow> string \<Rightarrow> obj \<Rightarrow> store \<Rightarrow> (error + unit) \<times> store" where
  "addAttributeOptions target propertyName options st =
     (case getAttributes target st of
        None \<Rightarrow>
          (Inl (Error (missing_column_message propertyName (constructor_name st target))), st)
      | Some attributes \<Rightarrow>
          (if \<not> truthy (attributes_get attributes propertyName st)
           then
             (Inl (Error (missing_column_message propertyName (constructor_name st target))), st)
           else
             (let (r, st1) =
                Object_assign_into (attributes_get attributes propertyName st) options st
              in (Inr (), attributes_put attributes propertyName r st1))))"

text \<open>The \<open>Comment\<close> decorator: \<open>Comment value\<close> is the property annotator.\<close>

definition Comment :: "string \<Rightarrow> target \<Rightarrow> string \<Rightarrow> store \<Rightarrow> (error + unit) \<times> store" where
  "Comment v target propertyName st =
     addAttributeOptions target propertyName [''comment'' \<mapsto> JStr v] st"

text \<open>
  What a reader of the metadata finds as the attribute record of a property: the fields of
  the object the attribute map holds under the property name.
\<close>

definition attribute_record :: "target \<Rightarrow> string \<Rightarrow> store \<Rightarrow> obj option" where
  "attribute_record target name st =
     (case getAttributes target st of
        None \<Rightarrow> None
      | Some a \<Rightarrow> map_option (plain_objs st) (attr_objs st a name))"

section \<open>Model options\<close>

definition DEFAULT_OPTIONS :: obj where
  "DEFAULT_OPTIONS = [''timestamps'' \<mapsto> JBool False]"

definition getOptions :: "target \<Rightarrow> store \<Rightarrow> addr option" where
  "getOptions target st = Reflect_getMetadata (options_md st) st target"

text \<open>
  \<open>setOptions\<close> only reads its argument and stores a new object, so it takes the argument's
  fields. \<open>addOptions\<close> merges into the object it found (its own or an inherited one) in
  place before handing it to \<open>setOptions\<close>.
\<close>

definition setOptions :: "target \<Rightarrow> obj \<Rightarrow> store \<Rightarrow> store" where
  "setOptions target options st =
     st\<lparr>opt_objs := (opt_objs st)(next_addr st := Object_assign Map.empty [DEFAULT_OPTIONS, options]),
        next_addr := Suc (next_addr st),
        options_md := Reflect_defineMetadata (options_md st) (next_addr st) target\<rparr>"

definition addOptions :: "target \<Rightarrow> obj \<Rightarrow> store \<Rightarrow> store" where
  "addOptions target options st =
     (case getOptions target st of
        None \<Rightarrow> setOptions target (Object_assign Map.empty [options]) st
      | Some a \<Rightarrow>
          (let st1 = st\<lparr>opt_objs := (opt_objs st)(a := Object_assign (opt_objs st a) [options])\<rparr>
           in setOptions target (opt_objs st1 a) st1))"

definition stored_options :: "target \<Rightarrow> store \<Rightarrow> obj option" where
  "stored_options target st = map_option (opt_objs st) (getOptions target st)"

section \<open>Type inference\<close>

text \<open>
  Modelled from the spec: the column types of the enumeration \<open>DataType\<close>, which the source
  imports; only the four members the function returns are needed.
\<close>

datatype DataType = STRING | INTEGER | BOOLEAN | DATE

definition unresolved_message :: "string \<Rightarrow> string" where
  "unresolved_message propertyName =
     ''Specified type of property '' @ [CHR 0x27] @ propertyName @ [CHR 0x27] @ '' '' @ [CHR 0x0A] @
     ''            cannot be automatically resolved to a sequelize data type. Please'' @ [CHR 0x0A] @
     ''            define the data type manually''"

text \<open>\<open>Reflect.getMetadata('design:type', target, propertyName)\<close>.\<close>

definition design_type :: "target \<Rightarrow> string \<Rightarrow> store \<Rightarrow> design option" where
  "design_type target propertyName st =
     Reflect_getMetadata (\<lambda>t. design_type_md st t propertyName) st target"

definition getSequelizeTypeByDesignType :: "target \<Rightarrow> string \<Rightarrow> store \<Rightarrow> error + DataType" where
  "getSequelizeTypeByDesignType target propertyName st =
     (case design_type target propertyName st of
        Some String \<Rightarrow> Inr STRING
      | Some Number \<Rightarrow> Inr INTEGER
      | Some Boolean \<Rightarrow> Inr BOOLEAN
      | Some Date \<Rightarrow> Inr DATE
      | _ \<Rightarrow> Inl (Error (unresolved_message propertyName)))"

section \<open>Foreign keys\<close>

definition getForeignKeys :: "target \<Rightarrow> store \<Rightarrow> addr option" where
  "getForeignKeys target st = Reflect_getMetadata (foreignKey_md st) st target"

definition setForeignKeys :: "target \<Rightarrow> addr \<Rightarrow> store \<Rightarrow> store" where
  "setForeignKeys target foreignKeys st =
     st\<lparr>foreignKey_md := Reflect_defineMetadata (foreignKey_md st) foreignKeys target\<rparr>"

text \<open>The array literal \<open>[]\<close> and \<open>foreignKeys.push(x)\<close>.\<close>

definition new_array :: "store \<Rightarrow> addr \<times> store" where
  "new_array st =
     (next_addr st,
      st\<lparr>fk_arrays := (fk_arrays st)(next_addr st := []), next_addr := Suc (next_addr st)\<rparr>)"

definition array_push :: "addr \<Rightarrow> ISequelizeForeignKeyConfig \<Rightarrow> store \<Rightarrow> store" where
  "array_push a x st = st\<lparr>fk_arrays := (fk_arrays st)(a := fk_arrays st a @ [x])\<rparr>"

definition addForeignKey :: "target \<Rightarrow> getter \<Rightarrow> string \<Rightarrow> store \<Rightarrow> store" where
  "addForeignKey target relatedClassGetter' propertyName st =
     (let (foreignKeys, st1) =
        (case getForeignKeys target st of
           None \<Rightarrow> (let (a, s) = new_array st in (a, setForeignKeys target a s))
         | Some a \<Rightarrow> (a, st))
      in array_push foreignKeys
           \<lparr>relatedClassGetter = relatedClassGetter', foreignKey = propertyName\<rparr> st1)"


section \<open>Sequences of calls\<close>

text \<open>
  Decorators run one after the other while a class is defined; an error thrown by one of
  them ends the sequence. \<open>addAttributeOptions_all\<close> applies \<open>addAttributeOptions\<close> with each
  option record in turn to one property.
\<close>

primrec addAttributeOptions_all ::
  "target \<Rightarrow> string \<Rightarrow> obj list \<Rightarrow> store \<Rightarrow> (error + unit) \<times> store" where
  "addAttributeOptions_all target p [] st = (Inr (), st)"
| "addAttributeOptions_all target p (opts # rest) st =
     (case addAttributeOptions target p opts st of
        (Inl e, st') \<Rightarrow> (Inl e, st')
      | (Inr u, st') \<Rightarrow> addAttributeOptions_all target p rest st')"

text \<open>
  The key-wise union of a list of records in the spec's words: a key has the value of the
  latest record that has the key, and no value when no record has it.
\<close>

definition latest_wins_union :: "obj list \<Rightarrow> obj" where
  "latest_wins_union rs k =
     (case filter (\<lambda>r. r k \<noteq> None) (rev rs) of [] \<Rightarrow> None | r # _ \<Rightarrow> r k)"



text \<open>Sequences of \<open>setOptions\<close> and \<open>addOptions\<close> calls on one target.\<close>

datatype options_call = SetOptions obj | AddOptions obj

primrec call_options :: "options_call \<Rightarrow> obj" where
  "call_options (SetOptions opts) = opts"
| "call_options (AddOptions opts) = opts"

primrec apply_options_call :: "target \<Rightarrow> options_call \<Rightarrow> store \<Rightarrow> store" where
  "apply_options_call target (SetOptions opts) st = setOptions target opts st"
| "apply_options_call target (AddOptions opts) st = addOptions target opts st"

primrec apply_options_calls :: "target \<Rightarrow> options_call list \<Rightarrow> store \<Rightarrow> store" where
  "apply_options_calls target [] st = st"
| "apply_options_calls target (c # cs) st =
     apply_options_calls target cs (apply_options_call target c st)"

definition stored_timestamps :: "target \<Rightarrow> store \<Rightarrow> jsval option" where
  "stored_timestamps target st =
     (case stored_options target st of None \<Rightarrow> None | Some r \<Rightarrow> r ''timestamps'')"

text \<open>
  The value of \<open>timestamps\<close> in the spec's words: the latest value any call of the sequence
  supplied, and \<open>false\<close> when no call supplied one.
\<close>

definition claimed_timestamps :: "options_call list \<Rightarrow> jsval" where
  "claimed_timestamps cs =
     (case List.map_filter (\<lambda>c. call_options c ''timestamps'') (rev cs) of
        [] \<Rightarrow> JBool False
      | v # _ \<Rightarrow> v)"

text \<open>
  The value of \<open>timestamps\<close> read off a sequence given latest call first: the first call
  met that supplies a value decides; a \<open>setOptions\<close> call that supplies none gives \<open>false\<close>
  whatever came earlier; with no call left, it is the value stored before the sequence, or
  \<open>false\<close> when there was none.
\<close>

fun effective_timestamps :: "options_call list \<Rightarrow> jsval option \<Rightarrow> jsval" where
  "effective_timestamps [] before = (case before of Some v \<Rightarrow> v | None \<Rightarrow> JBool False)"
| "effective_timestamps (SetOptions opts # earlier) before =
     (case opts ''timestamps'' of Some v \<Rightarrow> v | None \<Rightarrow> JBool False)"
| "effective_timestamps (AddOptions opts # earlier) before =
     (case opts ''timestamps'' of
        Some v \<Rightarrow> v
      | None \<Rightarrow> effective_timestamps earlier before)"

text \<open>
  Histories: the calls of the module's writing functions, on any targets, in the order they
  ran. A call that throws leaves the store as it was when it threw.
\<close>

datatype call =
    Call_setModelName target string
  | Call_setAttributes target addr
  | Call_addAttribute target string obj
  | Call_addAttributeOptions target string obj
  | Call_Comment string target string
  | Call_setOptions target obj
  | Call_addOptions target obj
  | Call_addForeignKey target getter string

primrec exec :: "call \<Rightarrow> store \<Rightarrow> store" where
  "exec (Call_setModelName t s) st = setModelName t s st"
| "exec (Call_setAttributes t a) st = setAttributes t a st"
| "exec (Call_addAttribute t p opts) st = addAttribute t p opts st"
| "exec (Call_addAttributeOptions t p opts) st = snd (addAttributeOptions t p opts st)"
| "exec (Call_Comment v t p) st = snd (Comment v t p st)"
| "exec (Call_setOptions t opts) st = setOptions t opts st"
| "exec (Call_addOptions t opts) st = addOptions t opts st"
| "exec (Call_addForeignKey t g p) st = addForeignKey t g p st"

primrec run :: "call list \<Rightarrow> store \<Rightarrow> store" where
  "run [] st = st"
| "run (c # cs) st = run cs (exec c st)"

text \<open>
  The target a call is a setter for, per kind of metadata: the model name is set by
  \<open>setModelName\<close>, the attribute map by \<open>setAttributes\<close> and \<open>addAttribute\<close>, the options by
  \<open>setOptions\<close> and \<open>addOptions\<close>.
\<close>

primrec modelName_setter :: "call \<Rightarrow> target option" where
  "modelName_setter (Call_setModelName t s) = Some t"
| "modelName_setter (Call_setAttributes t a) = None"
| "modelName_setter (Call_addAttribute t p opts) = None"
| "modelName_setter (Call_addAttributeOptions t p opts) = None"
| "modelName_setter (Call_Comment v t p) = None"
| "modelName_setter (Call_setOptions t opts) = None"
| "modelName_setter (Call_addOptions t opts) = None"
| "modelName_setter (Call_addForeignKey t g p) = None"

primrec attributes_setter :: "call \<Rightarrow> target option" where
  "attributes_setter (Call_setModelName t s) = None"
| "attributes_setter (Call_setAttributes t a) = Some t"
| "attributes_setter (Call_addAttribute t p opts) = Some t"
| "attributes_setter (Call_addAttributeOptions t p opts) = None"
| "attributes_setter (Call_Comment v t p) = None"
| "attributes_setter (Call_setOptions t opts) = None"
| "attributes_setter (Call_addOptions t opts) = None"
| "attributes_setter (Call_addForeignKey t g p) = None"

primrec options_setter :: "call \<Rightarrow> target option" where
  "options_setter (Call_setModelName t s) = None"
| "options_setter (Call_setAttributes t a) = None"
| "options_setter (Call_addAttribute t p opts) = None"
| "options_setter (Call_addAttributeOptions t p opts) = None"
| "options_setter (Call_Comment v t p) = None"
| "options_setter (Call_setOptions t opts) = Some t"
| "options_setter (Call_addOptions t opts) = Some t"
| "options_setter (Call_addForeignKey t g p) = None"

text \<open>No call of the history is a setter (of the given kind) run on one of the targets.\<close>

definition never_ran_on :: "(call \<Rightarrow> target option) \<Rightarrow> call list \<Rightarrow> target list \<Rightarrow> bool" where
  "never_ran_on setter cs ts =
     list_all (\<lambda>c. case setter c of None \<Rightarrow> True | Some t \<Rightarrow> t \<notin> set ts) cs"

text \<open>
  Example data: class \<open>Post\<close> (target 1) extends class \<open>Base\<close> (target 0); target 2 is a
  class of its own. In \<open>ex_typed\<close> the compiler has recorded the declared types of the
  properties of \<open>Base\<close>.
\<close>

definition ex_classes :: store where
  "ex_classes =
     empty_store (\<lambda>t. if t = 1 then [0] else []) (\<lambda>t. if t = 0 then ''Base'' else ''Post'')"

definition ex_typed :: store where
  "ex_typed = ex_classes\<lparr>design_type_md :=
     (\<lambda>t. if t = 0
          then [''name'' \<mapsto> String, ''age'' \<mapsto> Number, ''active'' \<mapsto> Boolean,
                ''born'' \<mapsto> Date, ''meta'' \<mapsto> Object]
          else Map.empty)\<rparr>"

definition ex_history :: "call list" where
  "ex_history =
     [Call_setModelName 0 ''Base'', Call_addAttribute 0 ''id'' Map.empty,
      Call_setOptions 0 Map.empty]"

section \<open>Model name: round trip\<close>

text \<open>
  Claim C7. Reading the model name of a target after setting it to \<open>s\<close> gives \<open>s\<close>, and after
  a later \<open>setModelName\<close> with \<open>s2\<close> on the same target it gives \<open>s2\<close>: the last write wins.
\<close>

theorem modelName_round_trip:
  "getModelName target (setModelName target s st) = Some s \<and>
   getModelName target (setModelName target s2 (setModelName target s st)) = Some s2"
  by (simp add: getModelName_def setModelName_def Reflect_getMetadata_def
      Reflect_defineMetadata_def)

section \<open>Attribute records\<close>

lemma Object_assign_empty [simp]: "Object_assign Map.empty [options] = options"
  by (simp add: Object_assign_def)

lemma Object_assign_one [simp]: "Object_assign r [options] = r ++ options"
  by (simp add: Object_assign_def)

lemma getAttributes_attributes_put [simp]:
  "getAttributes target (attributes_put a name r st) = getAttributes target st"
  by (simp add: getAttributes_def attributes_put_def Reflect_getMetadata_def)

lemma getAttributes_new_object [simp]:
  "getAttributes target (snd (new_object fs st)) = getAttributes target st"
  by (simp add: getAttributes_def new_object_def Reflect_getMetadata_def)

lemma attr_objs_attributes_put [simp]:
  "attr_objs (attributes_put a name r st) a name = Some r"
  by (simp add: attributes_put_def)

lemma plain_objs_attributes_put [simp]:
  "plain_objs (attributes_put a name r st) = plain_objs st"
  by (simp add: attributes_put_def)

lemma plain_objs_new_object [simp]:
  "plain_objs (snd (new_object fs st)) (fst (new_object fs st)) = fs"
  by (simp add: new_object_def)

lemma getAttributes_setAttributes [simp]:
  "getAttributes target (setAttributes target a st) = Some a"
  by (simp add: getAttributes_def setAttributes_def Reflect_getMetadata_def
      Reflect_defineMetadata_def)

text \<open>Whatever the store held, the record found after \<open>addAttribute\<close> is the given options.\<close>

lemma addAttribute_unfold:
  "addAttribute target name options st =
     (let st1 = (case getAttributes target st of
                   None \<Rightarrow> setAttributes target (fst (new_attributes st)) (snd (new_attributes st))
                 | Some a \<Rightarrow> st);
          a = (case getAttributes target st of None \<Rightarrow> fst (new_attributes st) | Some a \<Rightarrow> a)
      in attributes_put a name (fst (new_object options st1)) (snd (new_object options st1)))"
  by (simp add: addAttribute_def Let_def split: option.splits prod.splits)

lemma addAttribute_record:
  "attribute_record target name (addAttribute target name options st) = Some options"
  by (cases "getAttributes target st")
    (simp_all add: attribute_record_def addAttribute_unfold Let_def)

text \<open>An entry of the map itself is what the read returns.\<close>

lemma attributes_get_own:
  "attr_objs st a name = Some r \<Longrightarrow> attributes_get a name st = JRef r"
  by (auto simp: attributes_get_def prototype_of_def)

lemma addAttributeOptions_present:
  assumes "attribute_record target name st = Some r"
  shows "fst (addAttributeOptions target name options st) = Inr ()"
    and "attribute_record target name (snd (addAttributeOptions target name options st)) =
          Some (r ++ options)"
proof -
  from assms obtain a ra where a: "getAttributes target st = Some a"
    and ra: "attr_objs st a name = Some ra" and r: "plain_objs st ra = r"
    by (auto simp: attribute_record_def split: option.splits)
  have step: "addAttributeOptions target name options st =
      (Inr (), attributes_put a name ra
         (st\<lparr>plain_objs := (plain_objs st)(ra := r ++ options)\<rparr>))"
    using a r by (simp add: addAttributeOptions_def attributes_get_own [OF ra]
        Object_assign_into_def)
  show "fst (addAttributeOptions target name options st) = Inr ()"
    by (simp add: step)
  have "getAttributes target (st\<lparr>plain_objs := (plain_objs st)(ra := r ++ options)\<rparr>) = Some a"
    using a by (simp add: getAttributes_def Reflect_getMetadata_def)
  then show "attribute_record target name (snd (addAttributeOptions target name options st)) =
      Some (r ++ options)"
    by (simp add: step attribute_record_def)
qed

lemma addAttributeOptions_all_present:
  "attribute_record target p st = Some r \<Longrightarrow>
   fst (addAttributeOptions_all target p os st) = Inr () \<and>
   attribute_record target p (snd (addAttributeOptions_all target p os st)) =
     Some (foldl (++) r os)"
proof (induction os arbitrary: st r)
  case Nil
  then show ?case by simp
next
  case (Cons x xs)
  obtain st' where step: "addAttributeOptions target p x st = (Inr (), st')"
    using addAttributeOptions_present(1) [OF Cons.prems, of x]
    by (cases "addAttributeOptions target p x st") auto
  have "attribute_record target p st' = Some (r ++ x)"
    using addAttributeOptions_present(2) [OF Cons.prems, of x] step by simp
  from Cons.IH [OF this] show ?case using step by simp
qed

text \<open>Merging left to right is the union in which the latest record wins.\<close>

lemma latest_wins_union_single: "latest_wins_union [r] = r"
  by (rule ext) (simp add: latest_wins_union_def)

lemma latest_wins_union_snoc: "latest_wins_union (rs @ [r]) = latest_wins_union rs ++ r"
  by (rule ext) (auto simp: latest_wins_union_def map_add_def split: option.splits)

lemma foldl_map_add_union: "foldl (++) r rs = latest_wins_union (r # rs)"
proof (induction rs rule: rev_induct)
  case Nil
  show ?case by (simp add: latest_wins_union_single)
next
  case (snoc x xs)
  have "latest_wins_union (r # xs @ [x]) = latest_wins_union ((r # xs) @ [x])" by simp
  also have "\<dots> = latest_wins_union (r # xs) ++ x" by (rule latest_wins_union_snoc)
  finally show ?case using snoc by simp
qed

text \<open>
  Claim C1. In any store, after \<open>addAttribute target p base\<close> followed by
  \<open>addAttributeOptions target p\<close> with the records \<open>os\<close> in turn, every call has succeeded and
  the attribute record of \<open>p\<close> is the key-wise union of \<open>base\<close> and \<open>os\<close> in which the latest
  record that has a key gives its value.
\<close>

theorem attribute_merge_union:
  "fst (addAttributeOptions_all target p os (addAttribute target p base st)) = Inr () \<and>
   attribute_record target p
     (snd (addAttributeOptions_all target p os (addAttribute target p base st)))
     = Some (latest_wins_union (base # os))"
  using addAttributeOptions_all_present [OF addAttribute_record]
  by (simp add: foldl_map_add_union)

text \<open>
  Claim C6. After \<open>addAttribute target ''title'' opts\<close>, applying \<open>Comment ''headline''\<close> to
  the property succeeds and the attribute record of \<open>title\<close> is \<open>opts\<close> with the field
  \<open>comment\<close> set to the string \<open>headline\<close>; every other field of \<open>opts\<close> is as it was.
\<close>

theorem comment_after_column:
  "fst (Comment ''headline'' target ''title'' (addAttribute target ''title'' opts st)) = Inr () \<and>
   attribute_record target ''title''
     (snd (Comment ''headline'' target ''title'' (addAttribute target ''title'' opts st)))
     = Some (opts(''comment'' \<mapsto> JStr ''headline''))"
  using addAttributeOptions_present [OF addAttribute_record]
  by (simp add: Comment_def)

text \<open>
  Claim C9. A second \<open>addAttribute target p opts2\<close>, after a first registration of \<open>p\<close> and
  any option merges into it, leaves exactly \<open>opts2\<close> as the attribute record of \<open>p\<close>: no
  field of the earlier record survives, merged ones included.
\<close>

theorem addAttribute_again_replaces:
  "attribute_record target p
     (addAttribute target p opts2
        (snd (addAttributeOptions_all target p os (addAttribute target p opts1 st))))
   = Some opts2"
  by (rule addAttribute_record)

section \<open>The ordering error\<close>

lemma sublist_quoted: "sublist ([q] @ x @ [q]) (a @ [q] @ x @ [q] @ b)"
  unfolding sublist_def by (rule exI [of _ a], rule exI [of _ b]) simp

lemma missing_column_message_property:
  "sublist ([CHR 0x22] @ p @ [CHR 0x22]) (missing_column_message p c)"
  unfolding missing_column_message_def by (rule sublist_quoted)

lemma missing_column_message_class:
  "sublist ([CHR 0x22] @ c @ [CHR 0x22]) (missing_column_message p c)"
proof -
  have "missing_column_message p c =
      (''@Column annotation is missing for '' @ [CHR 0x22] @ p @ [CHR 0x22] @ '' of class '') @
      [CHR 0x22] @ c @ [CHR 0x22] @ '' or annotation order is wrong.''"
    by (simp add: missing_column_message_def)
  then show ?thesis
    using sublist_quoted by metis
qed

text \<open>
  Where the read \<open>attributes[p]\<close> finds nothing truthy (or there is no attribute map at all),
  \<open>addAttributeOptions\<close> and the \<open>Comment\<close> decorator fail with the ordering error, whose
  message contains the property name and the name of the target's class, each in double
  quotes.
\<close>

lemma addAttributeOptions_nothing_found:
  assumes "getAttributes target st = None \<or>
           (\<exists>a. getAttributes target st = Some a \<and> \<not> truthy (attributes_get a p st))"
  shows "\<exists>msg. fst (addAttributeOptions target p opts st) = Inl (Error msg) \<and>
               fst (Comment v target p st) = Inl (Error msg) \<and>
               sublist ([CHR 0x22] @ p @ [CHR 0x22]) msg \<and>
               sublist ([CHR 0x22] @ constructor_name st target @ [CHR 0x22]) msg"
proof -
  have "fst (addAttributeOptions target p os st) =
          Inl (Error (missing_column_message p (constructor_name st target)))" for os
    using assms by (auto simp: addAttributeOptions_def)
  then show ?thesis
    using missing_column_message_property [of p "constructor_name st target"]
      missing_column_message_class [of "constructor_name st target" p]
    by (simp add: Comment_def)
qed

lemma ex_classes_fields:
  "ancestors ex_classes t = (if t = 1 then [0] else [])"
  "constructor_name ex_classes t = (if t = 0 then ''Base'' else ''Post'')"
  "attributes_md ex_classes t = None"
  "attr_objs ex_classes a = Map.empty"
  "Object_prototype ex_classes = 0"
  "plain_objs ex_classes 0 = Object_prototype_members"
  "next_addr ex_classes = 12"
  by (simp_all add: ex_classes_def empty_store_def)

text \<open>
  The store after \<open>title\<close> has been registered as a column of \<open>Post\<close>: the attribute map is
  the new object at address 12, its one entry the record at address 13.
\<close>

lemma ex_titled:
  "addAttribute 1 ''title'' Map.empty ex_classes =
     ex_classes\<lparr>attr_objs := (attr_objs ex_classes)(12 := [''title'' \<mapsto> 13]),
                next_addr := 14,
                attributes_md := [1 \<mapsto> 12],
                plain_objs := (plain_objs ex_classes)(13 := Map.empty)\<rparr>"
proof -
  have "getAttributes 1 ex_classes = None"
    by (simp add: getAttributes_def Reflect_getMetadata_def ex_classes_fields)
  then show ?thesis
    by (simp add: addAttribute_def new_attributes_def new_object_def setAttributes_def
        attributes_put_def Reflect_defineMetadata_def ex_classes_fields)
      (simp add: ex_classes_def empty_store_def fun_upd_def)
qed

text \<open>
  Claim C2. The claim fails on the code for a property name that a plain object inherits.
  With an attribute map present for \<open>Post\<close> that has no entry for \<open>toString\<close>, the decorator
  \<open>Comment ''x''\<close> applied to \<open>toString\<close> does not fail: the read in the guard finds the
  function \<open>Object.prototype.toString\<close> (address 9), the comment is merged into that function
  object, and the function becomes the map's entry for \<open>toString\<close>. With a name that is
  found nowhere (\<open>ghost\<close>) the same call fails as the claim says.
\<close>

theorem comment_on_inherited_name:
  "getAttributes 1 (addAttribute 1 ''title'' Map.empty ex_classes) = Some 12 \<and>
   attr_objs (addAttribute 1 ''title'' Map.empty ex_classes) 12 ''toString'' = None \<and>
   fst (Comment ''x'' 1 ''toString'' (addAttribute 1 ''title'' Map.empty ex_classes)) = Inr () \<and>
   attr_objs (snd (Comment ''x'' 1 ''toString'' (addAttribute 1 ''title'' Map.empty ex_classes)))
     12 ''toString'' = Some 9 \<and>
   plain_objs (snd (Comment ''x'' 1 ''toString'' (addAttribute 1 ''title'' Map.empty ex_classes)))
     9 = [''comment'' \<mapsto> JStr ''x''] \<and>
   fst (Comment ''x'' 1 ''ghost'' (addAttribute 1 ''title'' Map.empty ex_classes)) =
     Inl (Error (missing_column_message ''ghost'' ''Post''))"
proof -
  define st where "st = addAttribute 1 ''title'' Map.empty ex_classes"
  define t where "t = (1::nat)"
  have found: "getAttributes t st = Some 12"
    unfolding st_def t_def ex_titled
    by (simp add: getAttributes_def Reflect_getMetadata_def ex_classes_fields)
  have own: "attr_objs st 12 ''toString'' = None"
    unfolding st_def ex_titled by simp
  have read: "attributes_get 12 ''toString'' st = JRef 9"
    unfolding st_def ex_titled
    by (simp add: attributes_get_def prototype_of_def ex_classes_fields
        Object_prototype_members_def)
  have ghost: "attributes_get 12 ''ghost'' st = JUndefined"
    unfolding st_def ex_titled
    by (simp add: attributes_get_def prototype_of_def ex_classes_fields
        Object_prototype_members_def)
  have untouched: "plain_objs st 9 = Map.empty"
    unfolding st_def ex_titled by (simp add: ex_classes_def empty_store_def)
  have name: "constructor_name st t = ''Post''"
    unfolding st_def t_def ex_titled by (simp add: ex_classes_fields)
  have step: "Comment ''x'' t ''toString'' st =
      (Inr (), attributes_put 12 ''toString'' 9
         (st\<lparr>plain_objs := (plain_objs st)(9 := [''comment'' \<mapsto> JStr ''x''])\<rparr>))"
    by (simp add: Comment_def addAttributeOptions_def found read untouched
        Object_assign_into_def)
  have fails: "fst (Comment ''x'' t ''ghost'' st) =
      Inl (Error (missing_column_message ''ghost'' ''Post''))"
    by (simp add: Comment_def addAttributeOptions_def found ghost name)
  have "getAttributes t st = Some 12 \<and>
      attr_objs st 12 ''toString'' = None \<and>
      fst (Comment ''x'' t ''toString'' st) = Inr () \<and>
      attr_objs (snd (Comment ''x'' t ''toString'' st)) 12 ''toString'' = Some 9 \<and>
      plain_objs (snd (Comment ''x'' t ''toString'' st)) 9 = [''comment'' \<mapsto> JStr ''x''] \<and>
      fst (Comment ''x'' t ''ghost'' st) = Inl (Error (missing_column_message ''ghost'' ''Post''))"
    using found own fails by (simp add: step attributes_put_def)
  then show ?thesis
    unfolding st_def t_def .
qed

text \<open>
  Claim C8. When \<open>addAttributeOptions target p opts\<close> fails, the store it leaves is the store
  it was called in: no attribute map, options object, model name or foreign-key list of any
  target has changed.
\<close>

theorem addAttributeOptions_failure_atomic:
  "fst (addAttributeOptions target p opts st) = Inl e \<Longrightarrow>
   snd (addAttributeOptions target p opts st) = st"
  by (auto simp: addAttributeOptions_def split: option.splits if_splits prod.splits)

theorem addAttributeOptions_failure_atomic_witness:
  "fst (addAttributeOptions 1 ''ghost'' [''comment'' \<mapsto> JStr ''x''] ex_classes) =
     Inl (Error (missing_column_message ''ghost'' ''Post'')) \<and>
   snd (addAttributeOptions 1 ''ghost'' [''comment'' \<mapsto> JStr ''x''] ex_classes) = ex_classes"
proof -
  have f: "fst (addAttributeOptions 1 ''ghost'' [''comment'' \<mapsto> JStr ''x''] ex_classes) =
     Inl (Error (missing_column_message ''ghost'' ''Post''))"
    by (simp add: addAttributeOptions_def getAttributes_def Reflect_getMetadata_def
        ex_classes_fields)
  from f addAttributeOptions_failure_atomic [OF f] show ?thesis by simp
qed

section \<open>Type inference\<close>

lemma unresolved_message_phrase:
  "sublist ''cannot be automatically resolved'' (unresolved_message p)"
proof -
  have "unresolved_message p =
      (''Specified type of property '' @ [CHR 0x27] @ p @ [CHR 0x27] @ '' '' @ [CHR 0x0A] @
       ''            '') @
      ''cannot be automatically resolved'' @
      ('' to a sequelize data type. Please'' @ [CHR 0x0A] @
       ''            define the data type manually'')"
    by (simp add: unresolved_message_def)
  then show ?thesis
    unfolding sublist_def by blast
qed

lemma unresolved_message_property:
  "sublist ([CHR 0x27] @ p @ [CHR 0x27]) (unresolved_message p)"
  unfolding unresolved_message_def by (rule sublist_quoted)

text \<open>
  Claim C3. \<open>getSequelizeTypeByDesignType\<close> is the fixed table over the declared type of the
  property: \<open>String\<close> gives \<open>STRING\<close>, \<open>Number\<close> gives \<open>INTEGER\<close>, \<open>Boolean\<close> gives \<open>BOOLEAN\<close>,
  \<open>Date\<close> gives \<open>DATE\<close>; for any other declared type, and when the property has no type
  metadata, it fails with an error whose message contains
  \<open>cannot be automatically resolved\<close> and the property name in single quotes.
\<close>

theorem design_type_table:
  "(design_type target p st = Some String \<longrightarrow>
      getSequelizeTypeByDesignType target p st = Inr STRING) \<and>
   (design_type target p st = Some Number \<longrightarrow>
      getSequelizeTypeByDesignType target p st = Inr INTEGER) \<and>
   (design_type target p st = Some Boolean \<longrightarrow>
      getSequelizeTypeByDesignType target p st = Inr BOOLEAN) \<and>
   (design_type target p st = Some Date \<longrightarrow>
      getSequelizeTypeByDesignType target p st = Inr DATE) \<and>
   (design_type target p st \<notin> {Some String, Some Number, Some Boolean, Some Date} \<longrightarrow>
      (\<exists>msg. getSequelizeTypeByDesignType target p st = Inl (Error msg) \<and>
         sublist ''cannot be automatically resolved'' msg \<and>
         sublist ([CHR 0x27] @ p @ [CHR 0x27]) msg))"
  using unresolved_message_phrase [of p] unresolved_message_property [of p]
  by (auto simp: getSequelizeTypeByDesignType_def split: option.splits design.splits)

lemma ex_typed_design_type:
  "design_type (Suc 0) p ex_typed =
     [''name'' \<mapsto> String, ''age'' \<mapsto> Number, ''active'' \<mapsto> Boolean,
      ''born'' \<mapsto> Date, ''meta'' \<mapsto> Object] p"
  by (simp add: design_type_def Reflect_getMetadata_def ex_typed_def ex_classes_def
      empty_store_def)

theorem design_type_table_witness:
  "getSequelizeTypeByDesignType 1 ''name'' ex_typed = Inr STRING \<and>
   getSequelizeTypeByDesignType 1 ''age'' ex_typed = Inr INTEGER \<and>
   getSequelizeTypeByDesignType 1 ''active'' ex_typed = Inr BOOLEAN \<and>
   getSequelizeTypeByDesignType 1 ''born'' ex_typed = Inr DATE \<and>
   design_type 1 ''meta'' ex_typed = Some Object \<and>
   (\<exists>msg. getSequelizeTypeByDesignType 1 ''meta'' ex_typed = Inl (Error msg) \<and>
      sublist ''cannot be automatically resolved'' msg \<and>
      sublist ([CHR 0x27] @ ''meta'' @ [CHR 0x27]) msg) \<and>
   design_type 1 ''ghost'' ex_typed = None \<and>
   (\<exists>msg. getSequelizeTypeByDesignType 1 ''ghost'' ex_typed = Inl (Error msg) \<and>
      sublist ''cannot be automatically resolved'' msg \<and>
      sublist ([CHR 0x27] @ ''ghost'' @ [CHR 0x27]) msg)"
  using design_type_table [of 1 "''name''" ex_typed]
    design_type_table [of 1 "''age''" ex_typed]
    design_type_table [of 1 "''active''" ex_typed]
    design_type_table [of 1 "''born''" ex_typed]
    design_type_table [of 1 "''meta''" ex_typed]
    design_type_table [of 1 "''ghost''" ex_typed]
  by (simp add: ex_typed_design_type)

section \<open>Foreign keys\<close>

lemma getForeignKeys_array_push [simp]:
  "getForeignKeys target (array_push a x st) = getForeignKeys target st"
  by (simp add: getForeignKeys_def array_push_def Reflect_getMetadata_def)

lemma getForeignKeys_setForeignKeys [simp]:
  "getForeignKeys target (setForeignKeys target a st) = Some a"
  by (simp add: getForeignKeys_def setForeignKeys_def Reflect_getMetadata_def
      Reflect_defineMetadata_def)

lemma fk_arrays_array_push [simp]:
  "fk_arrays (array_push a x st) a = fk_arrays st a @ [x]"
  by (simp add: array_push_def)

lemma fk_arrays_new_array [simp]:
  "fk_arrays (setForeignKeys target a (snd (new_array st))) (fst (new_array st)) = []"
  by (simp add: new_array_def setForeignKeys_def)







section \<open>Model options and the default\<close>

lemma stored_options_setOptions:
  "stored_options target (setOptions target opts st) = Some (DEFAULT_OPTIONS ++ opts)"
  by (simp add: stored_options_def getOptions_def setOptions_def Reflect_getMetadata_def
      Reflect_defineMetadata_def Object_assign_def)

lemma stored_options_addOptions:
  "stored_options target (addOptions target opts st) =
     Some (DEFAULT_OPTIONS ++
       (case stored_options target st of None \<Rightarrow> opts | Some r \<Rightarrow> r ++ opts))"
proof (cases "getOptions target st")
  case None
  then have "stored_options target st = None"
    by (simp add: stored_options_def)
  then show ?thesis
    using None by (simp add: addOptions_def stored_options_setOptions)
next
  case (Some a)
  then have "stored_options target st = Some (opt_objs st a)"
    by (simp add: stored_options_def)
  then show ?thesis
    using Some by (simp add: addOptions_def stored_options_setOptions)
qed

lemma stored_timestamps_setOptions:
  "stored_timestamps target (setOptions target opts st) =
     Some (case opts ''timestamps'' of Some v \<Rightarrow> v | None \<Rightarrow> JBool False)"
  by (simp add: stored_timestamps_def stored_options_setOptions DEFAULT_OPTIONS_def
      map_add_def split: option.splits)

lemma stored_timestamps_addOptions:
  "stored_timestamps target (addOptions target opts st) =
     Some (case opts ''timestamps'' of
             Some v \<Rightarrow> v
           | None \<Rightarrow>
               (case stored_timestamps target st of Some v \<Rightarrow> v | None \<Rightarrow> JBool False))"
  by (cases "stored_options target st")
    (simp_all add: stored_timestamps_def stored_options_addOptions DEFAULT_OPTIONS_def
      map_add_def split: option.splits)

lemma stored_timestamps_call:
  "stored_timestamps target (apply_options_call target c st) =
     Some (effective_timestamps [c] (stored_timestamps target st))"
  by (cases c)
    (simp_all add: stored_timestamps_setOptions stored_timestamps_addOptions
      split: option.splits)

lemma effective_timestamps_snoc:
  "effective_timestamps (cs @ [c]) before =
     effective_timestamps cs (Some (effective_timestamps [c] before))"
  by (induction cs before rule: effective_timestamps.induct) (simp_all split: option.splits)

lemma stored_timestamps_calls:
  "cs \<noteq> [] \<Longrightarrow>
   stored_timestamps target (apply_options_calls target cs st) =
     Some (effective_timestamps (rev cs) (stored_timestamps target st))"
proof (induction cs arbitrary: st)
  case Nil
  then show ?case by simp
next
  case (Cons c cs)
  show ?case
  proof (cases "cs = []")
    case True
    then show ?thesis by (simp add: stored_timestamps_call)
  next
    case False
    from Cons.IH [OF False, of "apply_options_call target c st"]
    show ?thesis by (simp add: stored_timestamps_call effective_timestamps_snoc)
  qed
qed

text \<open>
  Claim C4, as amended. After a sequence of \<open>setOptions\<close> and \<open>addOptions\<close> calls on a target
  with at least one call, the stored options record has the key \<open>timestamps\<close>. Its value is
  the one supplied by the latest call that supplied one among the calls from the last
  \<open>setOptions\<close> call on (among all calls when the sequence has no \<open>setOptions\<close>); when none of
  those supplied one it is \<open>false\<close>, except that a sequence of \<open>addOptions\<close> calls alone keeps
  a value that was stored for the target, its own or inherited, before the sequence.
\<close>

theorem options_timestamps_effective:
  assumes "cs \<noteq> []"
  shows "\<exists>r. stored_options target (apply_options_calls target cs st) = Some r \<and>
             r ''timestamps'' =
               Some (effective_timestamps (rev cs) (stored_timestamps target st))"
  using stored_timestamps_calls [OF assms, of target st]
  by (auto simp: stored_timestamps_def split: option.splits)

lemma ex_classes_no_options: "stored_timestamps t ex_classes = None"
  by (simp add: stored_timestamps_def stored_options_def getOptions_def
      Reflect_getMetadata_def ex_classes_def empty_store_def)

theorem options_timestamps_effective_witness:
  "[AddOptions [''tableName'' \<mapsto> JStr ''post''],
    SetOptions [''timestamps'' \<mapsto> JBool True],
    AddOptions [''paranoid'' \<mapsto> JBool True]] \<noteq> [] \<and>
   (\<exists>r. stored_options 1
          (apply_options_calls 1
             [AddOptions [''tableName'' \<mapsto> JStr ''post''],
              SetOptions [''timestamps'' \<mapsto> JBool True],
              AddOptions [''paranoid'' \<mapsto> JBool True]] ex_classes) = Some r \<and>
        r ''timestamps'' = Some (JBool True))"
  using options_timestamps_effective
    [of "[AddOptions [''tableName'' \<mapsto> JStr ''post''],
          SetOptions [''timestamps'' \<mapsto> JBool True],
          AddOptions [''paranoid'' \<mapsto> JBool True]]" 1 ex_classes]
  by (simp add: ex_classes_no_options)

text \<open>
  The claim as the spec words it fails: \<open>setOptions\<close> with \<open>timestamps: true\<close> followed by
  \<open>setOptions\<close> with an empty record stores \<open>false\<close>, though a call of the sequence supplied
  \<open>true\<close>.
\<close>

theorem options_timestamps_counterexample:
  "stored_timestamps 0
     (apply_options_calls 0 [SetOptions [''timestamps'' \<mapsto> JBool True], SetOptions Map.empty]
        ex_classes) = Some (JBool False) \<and>
   claimed_timestamps [SetOptions [''timestamps'' \<mapsto> JBool True], SetOptions Map.empty] =
     JBool True"
  by (simp add: stored_timestamps_setOptions claimed_timestamps_def List.map_filter_simps)

section \<open>Reads on a class without metadata\<close>

lemma OrdinaryGetMetadata_None:
  "OrdinaryGetMetadata md ts = None \<longleftrightarrow> (\<forall>t \<in> set ts. md t = None)"
  by (induction ts) (auto split: option.splits)

lemma addAttributeOptions_slots:
  "ancestors (snd (addAttributeOptions t p opts st)) = ancestors st"
  "modelName_md (snd (addAttributeOptions t p opts st)) = modelName_md st"
  "attributes_md (snd (addAttributeOptions t p opts st)) = attributes_md st"
  "options_md (snd (addAttributeOptions t p opts st)) = options_md st"
  by (simp_all add: addAttributeOptions_def attributes_put_def Object_assign_into_def
      new_object_def split: option.splits prod.splits jsval.splits)

lemma addAttribute_slots:
  "ancestors (addAttribute t p opts st) = ancestors st"
  "modelName_md (addAttribute t p opts st) = modelName_md st"
  "options_md (addAttribute t p opts st) = options_md st"
  "t' \<noteq> t \<Longrightarrow> attributes_md (addAttribute t p opts st) t' = attributes_md st t'"
  by (simp_all add: addAttribute_def attributes_put_def new_attributes_def new_object_def
      setAttributes_def Reflect_defineMetadata_def split: option.splits)

lemma setOptions_slots:
  "ancestors (setOptions t opts st) = ancestors st"
  "modelName_md (setOptions t opts st) = modelName_md st"
  "attributes_md (setOptions t opts st) = attributes_md st"
  "t' \<noteq> t \<Longrightarrow> options_md (setOptions t opts st) t' = options_md st t'"
  by (simp_all add: setOptions_def Reflect_defineMetadata_def)

lemma addOptions_slots:
  "ancestors (addOptions t opts st) = ancestors st"
  "modelName_md (addOptions t opts st) = modelName_md st"
  "attributes_md (addOptions t opts st) = attributes_md st"
  "t' \<noteq> t \<Longrightarrow> options_md (addOptions t opts st) t' = options_md st t'"
  by (simp_all add: addOptions_def setOptions_slots Let_def split: option.splits)

lemma addForeignKey_slots:
  "ancestors (addForeignKey t g p st) = ancestors st"
  "modelName_md (addForeignKey t g p st) = modelName_md st"
  "attributes_md (addForeignKey t g p st) = attributes_md st"
  "options_md (addForeignKey t g p st) = options_md st"
  by (simp_all add: addForeignKey_def array_push_def new_array_def setForeignKeys_def
      split: option.splits)

lemmas call_slots =
  setModelName_def setAttributes_def addAttribute_slots addAttributeOptions_slots Comment_def
  setOptions_slots addOptions_slots addForeignKey_slots Reflect_defineMetadata_def

lemma exec_ancestors: "ancestors (exec c st) = ancestors st"
  by (cases c) (simp_all add: call_slots)

lemma exec_modelName_md:
  "modelName_setter c \<noteq> Some t' \<Longrightarrow> modelName_md (exec c st) t' = modelName_md st t'"
  by (cases c) (simp_all add: call_slots)

lemma exec_attributes_md:
  "attributes_setter c \<noteq> Some t' \<Longrightarrow> attributes_md (exec c st) t' = attributes_md st t'"
  by (cases c) (simp_all add: call_slots)

lemma exec_options_md:
  "options_setter c \<noteq> Some t' \<Longrightarrow> options_md (exec c st) t' = options_md st t'"
  by (cases c) (simp_all add: call_slots)

lemma run_ancestors: "ancestors (run cs st) = ancestors st"
  by (induction cs arbitrary: st) (simp_all add: exec_ancestors)

lemma never_ran_on_Cons:
  "never_ran_on f (c # cs) ts \<longleftrightarrow> (\<forall>t \<in> set ts. f c \<noteq> Some t) \<and> never_ran_on f cs ts"
  by (auto simp: never_ran_on_def split: option.splits)

text \<open>A slot that only setters on its target write stays as it is when none of them ran.\<close>

lemma run_slot_untouched:
  assumes step: "\<And>c st t'. f c \<noteq> Some t' \<Longrightarrow> md (exec c st) t' = md st t'"
  shows "never_ran_on f cs ts \<Longrightarrow> t' \<in> set ts \<Longrightarrow> md (run cs st) t' = md st t'"
proof (induction cs arbitrary: st)
  case Nil
  then show ?case by simp
next
  case (Cons c cs)
  then have "f c \<noteq> Some t'" and "never_ran_on f cs ts"
    by (simp_all add: never_ran_on_Cons)
  then show ?case using Cons.IH [of "exec c st"] Cons.prems(2) step by simp
qed

lemma empty_store_slots:
  "ancestors (empty_store anc names) = anc"
  "modelName_md (empty_store anc names) t = None"
  "attributes_md (empty_store anc names) t = None"
  "options_md (empty_store anc names) t = None"
  by (simp_all add: empty_store_def)

text \<open>
  Claim C10, as amended. Take any history of calls run from the store without metadata. For
  a target such that no model-name setter ran on it or on an object of its prototype chain,
  \<open>getModelName\<close> returns nothing; likewise \<open>getAttributes\<close> when no attribute setter ran on the
  target or its chain, and \<open>getOptions\<close> when no options setter did, in which case no options
  record and so no \<open>timestamps\<close> default is read either. The reads are values, never errors.
\<close>

theorem reads_without_setter:
  "(never_ran_on modelName_setter cs (t # anc t) \<longrightarrow>
      getModelName t (run cs (empty_store anc names)) = None) \<and>
   (never_ran_on attributes_setter cs (t # anc t) \<longrightarrow>
      getAttributes t (run cs (empty_store anc names)) = None) \<and>
   (never_ran_on options_setter cs (t # anc t) \<longrightarrow>
      getOptions t (run cs (empty_store anc names)) = None \<and>
      stored_options t (run cs (empty_store anc names)) = None)"
proof -
  let ?st = "run cs (empty_store anc names)"
  have chain: "ancestors ?st t = anc t"
    by (simp add: run_ancestors empty_store_slots)
  have name: "getModelName t ?st = None" if "never_ran_on modelName_setter cs (t # anc t)"
    using run_slot_untouched [of modelName_setter modelName_md, OF exec_modelName_md that]
    by (simp add: getModelName_def Reflect_getMetadata_def chain OrdinaryGetMetadata_None
        empty_store_slots del: OrdinaryGetMetadata.simps)
  have attrs: "getAttributes t ?st = None" if "never_ran_on attributes_setter cs (t # anc t)"
    using run_slot_untouched [of attributes_setter attributes_md, OF exec_attributes_md that]
    by (simp add: getAttributes_def Reflect_getMetadata_def chain OrdinaryGetMetadata_None
        empty_store_slots del: OrdinaryGetMetadata.simps)
  have opts: "getOptions t ?st = None" if "never_ran_on options_setter cs (t # anc t)"
    using run_slot_untouched [of options_setter options_md, OF exec_options_md that]
    by (simp add: getOptions_def Reflect_getMetadata_def chain OrdinaryGetMetadata_None
        empty_store_slots del: OrdinaryGetMetadata.simps)
  from name attrs opts show ?thesis
    by (simp add: stored_options_def)
qed

theorem reads_without_setter_witness:
  "never_ran_on modelName_setter ex_history [2] \<and>
   never_ran_on attributes_setter ex_history [2] \<and>
   never_ran_on options_setter ex_history [2] \<and>
   getModelName 2 (run ex_history ex_classes) = None \<and>
   getAttributes 2 (run ex_history ex_classes) = None \<and>
   getOptions 2 (run ex_history ex_classes) = None \<and>
   stored_options 2 (run ex_history ex_classes) = None"
proof -
  have h: "never_ran_on modelName_setter ex_history (2 # (if (2::nat) = 1 then [0] else []))"
    "never_ran_on attributes_setter ex_history (2 # (if (2::nat) = 1 then [0] else []))"
    "never_ran_on options_setter ex_history (2 # (if (2::nat) = 1 then [0] else []))"
    by (simp_all add: ex_history_def never_ran_on_def)
  from h reads_without_setter [of ex_history 2 "\<lambda>t. if t = 1 then [0] else []"
      "\<lambda>t. if t = 0 then ''Base'' else ''Post''"]
  show ?thesis by (simp add: ex_classes_def)
qed

text \<open>
  The claim as the spec words it fails for a subclass: no setter ever ran on \<open>Post\<close>
  (target 1), yet the reads return what was set on its parent \<open>Base\<close>, the default
  \<open>timestamps: false\<close> of the parent's options included.
\<close>

theorem reads_inherited_counterexample:
  "never_ran_on modelName_setter ex_history [1] \<and>
   never_ran_on attributes_setter ex_history [1] \<and>
   never_ran_on options_setter ex_history [1] \<and>
   getModelName 1 (run ex_history ex_classes) = Some ''Base'' \<and>
   getAttributes 1 (run ex_history ex_classes) \<noteq> None \<and>
   stored_timestamps 1 (run ex_history ex_classes) = Some (JBool False)"
  by (simp add: ex_history_def ex_classes_def never_ran_on_def empty_store_def
      getModelName_def getAttributes_def getOptions_def stored_timestamps_def stored_options_def
      Reflect_getMetadata_def Reflect_defineMetadata_def setModelName_def addAttribute_def
      new_attributes_def new_object_def setAttributes_def attributes_put_def setOptions_def
      DEFAULT_OPTIONS_def Object_assign_def)

end
